theory Spec2Isabelle
  imports Complex_Main "HOL-Library.Sublist" "HOL-Library.AList"
begin

section \<open>JavaScript values\<close>

text \<open>
  The image client, class \<^verbatim>\<open>QuantumAI\<close> of \<^verbatim>\<open>src/services/geminiService.ts\<close>, works on
  untyped JSON (\<^verbatim>\<open>data: any\<close>). (An older copy of the class stands at the end of
  \<^verbatim>\<open>src/AtomScene.tsx\<close>; its \<^verbatim>\<open>parseImage\<close> and \<^verbatim>\<open>requestAndPoll\<close> are the same, its
  prompt is another.) A JSON value is a \<open>json\<close>; a JavaScript value that may be
  \<^verbatim>\<open>undefined\<close> is a \<open>json option\<close>, with \<open>None\<close> for \<^verbatim>\<open>undefined\<close>.

  A number is held as the text that JavaScript's number-to-string conversion prints
  for it, so zero is \<open>''0''\<close>, and the numbers that are not finite are \<open>''Infinity''\<close>,
  \<open>''-Infinity''\<close> and \<open>''NaN''\<close>; the program only tests numbers for truthiness and
  prints them. A string is a list of code units. An object is the list of its own
  properties in enumeration order, each key once.
\<close>

datatype json =
    JNull
  | JBool bool
  | JNum string
  | JStr string
  | JArr "json list"
  | JObj "(string \<times> json) list"

type_synonym js = "json option"

text \<open>JavaScript truthiness (\<^verbatim>\<open>!!v\<close>): \<^verbatim>\<open>undefined\<close>, \<^verbatim>\<open>null\<close>, \<^verbatim>\<open>false\<close>, \<^verbatim>\<open>0\<close>,
  \<^verbatim>\<open>NaN\<close> and \<^verbatim>\<open>""\<close> are falsy, every array and object is truthy.\<close>

fun truthy :: "js \<Rightarrow> bool" where
  "truthy None = False"
| "truthy (Some JNull) = False"
| "truthy (Some (JBool b)) = b"
| "truthy (Some (JNum n)) = (n \<noteq> ''0'' \<and> n \<noteq> ''NaN'')"
| "truthy (Some (JStr s)) = (s \<noteq> [])"
| "truthy (Some (JArr xs)) = True"
| "truthy (Some (JObj kvs)) = True"

text \<open>The operator \<^verbatim>\<open>a || b\<close>.\<close>

definition js_or :: "js \<Rightarrow> js \<Rightarrow> js" where
  "js_or a b = (if truthy a then a else b)"

text \<open>Optional property access \<^verbatim>\<open>v?.k\<close>, for the property names this program reads
  (none of them is a property of a string, an array or a prototype): only an object
  has them.\<close>

fun getProp :: "string \<Rightarrow> js \<Rightarrow> js" where
  "getProp k (Some (JObj kvs)) = map_of kvs k"
| "getProp k v = None"

text \<open>Optional index access \<^verbatim>\<open>v?.[0]\<close>: the first element of an array, the first
  code unit of a string, the property \<^verbatim>\<open>"0"\<close> of an object.\<close>

fun index0 :: "js \<Rightarrow> js" where
  "index0 (Some (JArr xs)) = (case xs of [] \<Rightarrow> None | x # rest \<Rightarrow> Some x)"
| "index0 (Some (JStr s)) = (case s of [] \<Rightarrow> None | c # rest \<Rightarrow> Some (JStr [c]))"
| "index0 (Some (JObj kvs)) = map_of kvs ''0''"
| "index0 v = None"

text \<open>\<^verbatim>\<open>Array.isArray(v)\<close>.\<close>

fun isArray :: "js \<Rightarrow> bool" where
  "isArray (Some (JArr xs)) = True"
| "isArray v = False"

text \<open>\<^verbatim>\<open>parts.join(sep)\<close> on strings.\<close>

fun join :: "string \<Rightarrow> string list \<Rightarrow> string" where
  "join sep [] = []"
| "join sep [x] = x"
| "join sep (x # y # ys) = x @ sep @ join sep (y # ys)"

text \<open>String conversion, as a template literal \<^verbatim>\<open>`${v}`\<close>, \<^verbatim>\<open>new Error(v)\<close> and
  \<^verbatim>\<open>fetch(v)\<close> do it; \<open>None\<close> is the conversion throwing a \<^verbatim>\<open>TypeError\<close>. An array prints its
  elements joined by commas, \<^verbatim>\<open>null\<close> elements as nothing. An object prints as
  \<^verbatim>\<open>[object Object]\<close> through the \<^verbatim>\<open>toString\<close> it inherits; when it has a property
  \<^verbatim>\<open>toString\<close> of its own (a JSON value, so not a function) that one hides the inherited
  method, the inherited \<^verbatim>\<open>valueOf\<close> gives the object back, and the conversion throws.\<close>

fun ToString_json :: "json \<Rightarrow> string option" where
  "ToString_json JNull = Some ''null''"
| "ToString_json (JBool b) = Some (if b then ''true'' else ''false'')"
| "ToString_json (JNum n) = Some n"
| "ToString_json (JStr s) = Some s"
| "ToString_json (JArr xs) =
     map_option (join '','')
       (those (map (\<lambda>x. if x = JNull then Some [] else ToString_json x) xs))"
| "ToString_json (JObj kvs) =
     (if map_of kvs ''toString'' = None then Some ''[object Object]'' else None)"

definition ToString :: "js \<Rightarrow> string option" where
  "ToString v = (case v of None \<Rightarrow> Some ''undefined'' | Some j \<Rightarrow> ToString_json j)"

text \<open>\<^verbatim>\<open>s.startsWith(p)\<close> is \<^const>\<open>prefix\<close>; \<^verbatim>\<open>s.includes(p)\<close> is \<^const>\<open>sublist\<close>.\<close>

definition hexdigit :: "bool \<Rightarrow> nat \<Rightarrow> char" where
  "hexdigit upper n =
     (if n < 10 then char_of (48 + n) else char_of ((if upper then 55 else 87) + n))"

text \<open>\<^verbatim>\<open>JSON.stringify\<close> on a JSON value: no white space, strings quoted with the
  escapes of ECMAScript's QuoteJSONString, a number that is not finite printed as
  \<^verbatim>\<open>null\<close>.\<close>

definition quoteChar :: "char \<Rightarrow> string" where
  "quoteChar c =
     (let n = (of_char c :: nat) in
      if n = 0x22 then [CHR 0x5C, CHR 0x22]
      else if n = 0x5C then [CHR 0x5C, CHR 0x5C]
      else if n = 0x08 then [CHR 0x5C, CHR ''b'']
      else if n = 0x0C then [CHR 0x5C, CHR ''f'']
      else if n = 0x0A then [CHR 0x5C, CHR ''n'']
      else if n = 0x0D then [CHR 0x5C, CHR ''r'']
      else if n = 0x09 then [CHR 0x5C, CHR ''t'']
      else if n < 0x20 then
        [CHR 0x5C, CHR ''u'', CHR ''0'', CHR ''0'', hexdigit False (n div 16), hexdigit False (n mod 16)]
      else [c])"

definition quoteJSONString :: "string \<Rightarrow> string" where
  "quoteJSONString s = [CHR 0x22] @ concat (map quoteChar s) @ [CHR 0x22]"

fun JSON_stringify :: "json \<Rightarrow> string" where
  "JSON_stringify JNull = ''null''"
| "JSON_stringify (JBool b) = (if b then ''true'' else ''false'')"
| "JSON_stringify (JNum n) =
     (if n = ''Infinity'' \<or> n = ''-Infinity'' \<or> n = ''NaN'' then ''null'' else n)"
| "JSON_stringify (JStr s) = quoteJSONString s"
| "JSON_stringify (JArr xs) = ''['' @ join '','' (map JSON_stringify xs) @ '']''"
| "JSON_stringify (JObj kvs) =
     ''{'' @ join '','' (map (\<lambda>(k, v). quoteJSONString k @ '':'' @ JSON_stringify v) kvs) @ ''}''"

text \<open>\<^verbatim>\<open>s.toLowerCase()\<close> on code units up to U+00FF.\<close>

definition lowerChar :: "char \<Rightarrow> char" where
  "lowerChar c =
     (let n = (of_char c :: nat) in
      if (65 \<le> n \<and> n \<le> 90) \<or> (192 \<le> n \<and> n \<le> 222 \<and> n \<noteq> 215) then char_of (n + 32) else c)"

definition toLowerCase :: "string \<Rightarrow> string" where
  "toLowerCase s = map lowerChar s"

text \<open>\<^verbatim>\<open>encodeURIComponent(s)\<close>: letters, digits and \<^verbatim>\<open>-_.!~*'()\<close> stay, every other
  code unit is percent-encoded in UTF-8 (two bytes from U+0080 to U+00FF).\<close>

definition percent :: "nat \<Rightarrow> string" where
  "percent b = [CHR ''%'', hexdigit True (b div 16), hexdigit True (b mod 16)]"

definition uriUnreserved :: "char \<Rightarrow> bool" where
  "uriUnreserved c =
     (let n = (of_char c :: nat) in
      (48 \<le> n \<and> n \<le> 57) \<or> (65 \<le> n \<and> n \<le> 90) \<or> (97 \<le> n \<and> n \<le> 122) \<or>
      c \<in> set ''-_.!~*'' \<or> n = 0x27 \<or> c \<in> set ''()'')"

definition encodeChar :: "char \<Rightarrow> string" where
  "encodeChar c =
     (let n = (of_char c :: nat) in
      if uriUnreserved c then [c]
      else if n < 128 then percent n
      else percent (192 + n div 64) @ percent (128 + n mod 64))"

definition encodeURIComponent :: "string \<Rightarrow> string" where
  "encodeURIComponent s = concat (map encodeChar s)"

section \<open>Prompt Builder\<close>

text \<open>\<^verbatim>\<open>AtomType\<close> is a union of string literals: an atom is its name.\<close>

datatype AtomType = Hydrogen | Helium | Lithium | Carbon | Oxygen

fun atomName :: "AtomType \<Rightarrow> string" where
  "atomName Hydrogen = ''Hydrogen''"
| "atomName Helium = ''Helium''"
| "atomName Lithium = ''Lithium''"
| "atomName Carbon = ''Carbon''"
| "atomName Oxygen = ''Oxygen''"

type_synonym EntityType = string

text \<open>\<^verbatim>\<open>WaveParams\<close>. The two numbers are taken as reals: a comparison of a finite
  double with the literal \<^verbatim>\<open>1.5\<close> or \<^verbatim>\<open>0.8\<close> comes out as the comparison of the reals
  (no double lies between 0.8 and the double nearest to it).\<close>

record WaveParams =
  wavelength :: real
  amplitude :: real

text \<open>The two local constants of \<^verbatim>\<open>buildPrompt\<close> (lines 33 and 34).\<close>

definition intensity :: "WaveParams \<Rightarrow> string" where
  "intensity params =
     (if wavelength params > 1.5 then ''intense''
      else if wavelength params < 0.8 then ''subtle'' else ''moderate'')"

definition density :: "WaveParams \<Rightarrow> string" where
  "density params =
     (if amplitude params > 1.5 then ''dense''
      else if amplitude params < 0.8 then ''sparse'' else ''flowing'')"

definition buildPrompt :: "AtomType \<Rightarrow> EntityType \<Rightarrow> WaveParams \<Rightarrow> string" where
  "buildPrompt atom subject params =
     ''A '' @ subject @ '' materializing from '' @ intensity params @
     '' quantum energy waves, '' @ density params @
     '' streams of turquoise and emerald light converging around '' @ atomName atom @
     '' atoms. Set in a futuristic physics laboratory with holographic displays and volumetric lighting. Cinematic composition, ray-traced reflections, 8k ultra-detailed, atmospheric depth.''"

section \<open>Response Parser\<close>

text \<open>\<^verbatim>\<open>parseImage\<close> (lines 39 to 47): a chain of \<^verbatim>\<open>||\<close>, which associates to the left.
  The last two operands look at \<^verbatim>\<open>artifacts\<close> and \<^verbatim>\<open>data\<close> only when they are arrays.\<close>

definition parseImage :: "js \<Rightarrow> js" where
  "parseImage data =
     js_or (js_or (js_or (js_or
       (getProp ''image'' data)
       (index0 (getProp ''images'' data)))
       (index0 (getProp ''output'' data)))
       (if isArray (getProp ''artifacts'' data)
        then getProp ''base64'' (index0 (getProp ''artifacts'' data)) else None))
       (if isArray (getProp ''data'' data)
        then js_or (getProp ''b64_json'' (index0 (getProp ''data'' data)))
                   (getProp ''url'' (index0 (getProp ''data'' data)))
        else None)"

section \<open>Errors\<close>

text \<open>What the call can throw: an \<^verbatim>\<open>Error\<close> with the message the source builds, or one
  of the platform's \<^verbatim>\<open>TypeError\<close> and \<^verbatim>\<open>SyntaxError\<close> (their messages are the platform's).\<close>

datatype error = Error string | TypeError | SyntaxError

section \<open>Result normalization\<close>

text \<open>Lines 138 and 139 of \<^verbatim>\<open>requestAndPoll\<close>:
  \<^verbatim>\<open>const isUrl = typeof image === "string" && image.startsWith("http");
  return isUrl ? image : `data:image/png;base64,${image}`;\<close>\<close>

definition isUrl :: "js \<Rightarrow> bool" where
  "isUrl img = (case img of Some (JStr s) \<Rightarrow> prefix ''http'' s | _ \<Rightarrow> False)"

text \<open>When \<^verbatim>\<open>isUrl\<close> holds the image is a string and is returned as it is; otherwise the
  template literal converts it to a string, which can throw.\<close>

definition normalizeResult :: "js \<Rightarrow> error + string" where
  "normalizeResult img =
     (case ToString img of
        None \<Rightarrow> Inl TypeError
      | Some t \<Rightarrow> Inr (if isUrl img then t else ''data:image/png;base64,'' @ t))"

section \<open>Configuration, requests, responses\<close>

text \<open>The module constants (lines 8 to 23), read once from the build environment; the
  values here are the ones after the defaults (\<^verbatim>\<open>|| ""\<close>) have been applied.
  \<open>SD_SAMPLES\<close> is the number \<^verbatim>\<open>Number(... || 1)\<close>, held as its text like every number.\<close>

record config =
  SD_ENDPOINT :: string
  SD_IMG2IMG_ENDPOINT :: string
  SD_API_KEY :: string
  SD_API_KEY_HEADER :: string
  SD_MODEL :: string
  SD_WIDTH :: string
  SD_HEIGHT :: string
  SD_SAMPLES :: string

text \<open>What \<^verbatim>\<open>fetch(url, {method, headers, body})\<close> is called with. The headers are the
  \<^verbatim>\<open>Record<string, string>\<close> of the source: a finite map from names to values.\<close>

record request =
  req_url :: string
  req_method :: string
  req_headers :: "string \<rightharpoonup> string"
  req_body :: string

text \<open>A response: its \<^verbatim>\<open>ok\<close> flag and its body. \<open>NoBody\<close> is a null body (status 204);
  \<open>Body raw parsed\<close> has the raw text and what \<^verbatim>\<open>JSON.parse\<close> makes of it, \<open>None\<close> when
  the text is not JSON. The JSON parser is the platform's, so both are given.\<close>

datatype body = NoBody | Body string "json option"

record response =
  ok :: bool
  content :: body

text \<open>What the call does to the outside, in order.\<close>

datatype event = Sleep nat | Fetch request

text \<open>The network: the answer to the \<open>n\<close>-th \<^verbatim>\<open>fetch\<close> of a call (the initial request is
  number 0, poll attempt \<open>k\<close> is number \<open>k + 1\<close>), which may depend on the request.
  \<open>Inl e\<close> is a rejected \<^verbatim>\<open>fetch\<close>.\<close>

type_synonym network = "nat \<Rightarrow> request \<Rightarrow> error + response"

text \<open>\<^verbatim>\<open>response.text()\<close> and \<^verbatim>\<open>response.json()\<close>, after the Fetch standard's "consume
  body": reading a body other than null a second time (\<open>used\<close>) rejects with a
  \<^verbatim>\<open>TypeError\<close>; a null body reads as the empty text, which is not JSON.\<close>

definition response_text :: "response \<Rightarrow> bool \<Rightarrow> error + string" where
  "response_text r used =
     (case content r of
        NoBody \<Rightarrow> Inr []
      | Body raw parsed \<Rightarrow> if used then Inl TypeError else Inr raw)"

definition response_json :: "response \<Rightarrow> bool \<Rightarrow> error + json" where
  "response_json r used =
     (case content r of
        NoBody \<Rightarrow> Inl SyntaxError
      | Body raw parsed \<Rightarrow>
          if used then Inl TypeError
          else (case parsed of None \<Rightarrow> Inl SyntaxError | Some d \<Rightarrow> Inr d))"

section \<open>Generation Client\<close>

text \<open>The assignment \<^verbatim>\<open>headers[name] = value\<close> on the object literal of line 50. For the
  name \<^verbatim>\<open>__proto__\<close> it reaches the setter that the object inherits from
  \<^verbatim>\<open>Object.prototype\<close>, which ignores a string: no property is set.\<close>

definition setHeader :: "string \<Rightarrow> string \<Rightarrow> (string \<rightharpoonup> string) \<Rightarrow> (string \<rightharpoonup> string)" where
  "setHeader name v headers = (if name = ''__proto__'' then headers else headers(name \<mapsto> v))"

text \<open>Lines 50 to 57: the headers of the initial request.\<close>

definition requestHeaders :: "config \<Rightarrow> (string \<rightharpoonup> string)" where
  "requestHeaders cfg =
     (let headers = [''Content-Type'' \<mapsto> ''application/json'', ''Accept'' \<mapsto> ''application/json'']
      in if SD_API_KEY cfg \<noteq> [] \<and> SD_API_KEY_HEADER cfg \<noteq> [] then
           setHeader (SD_API_KEY_HEADER cfg)
             (if toLowerCase (SD_API_KEY_HEADER cfg) = ''authorization''
              then ''Bearer '' @ SD_API_KEY cfg else SD_API_KEY cfg)
             headers
         else headers)"

definition initialRequest :: "config \<Rightarrow> string \<Rightarrow> json \<Rightarrow> request" where
  "initialRequest cfg endpoint payload =
     \<lparr>req_url = endpoint, req_method = ''POST'', req_headers = requestHeaders cfg,
      req_body = JSON_stringify payload\<rparr>"

text \<open>Lines 72 to 76: the error thrown for an initial body with an error status or field.\<close>

definition isInitialError :: "js \<Rightarrow> bool" where
  "isInitialError d =
     (getProp ''status'' d = Some (JStr ''error'') \<or> getProp ''status'' d = Some (JStr ''failed'') \<or>
      truthy (getProp ''error'' d))"

text \<open>\<^verbatim>\<open>new Error(v)\<close>: the message is \<open>v\<close> converted to a string, and the error is a
  \<^verbatim>\<open>TypeError\<close> when that conversion throws.\<close>

definition newError :: "string option \<Rightarrow> error" where
  "newError m = (case m of None \<Rightarrow> TypeError | Some t \<Rightarrow> Error t)"

definition initialError :: "js \<Rightarrow> error" where
  "initialError d =
     (let msg = js_or (getProp ''message'' d) (getProp ''error'' d);
          detail = getProp ''error'' (getProp ''error_log'' d)
      in newError
           (if truthy detail
            then (case ToString (js_or msg (Some (JStr ''Generation failed''))) of
                    None \<Rightarrow> None
                  | Some m \<Rightarrow>
                      (case ToString detail of
                         None \<Rightarrow> None
                       | Some t \<Rightarrow> Some (m @ '' ('' @ t @ '')'')))
            else ToString (js_or msg (Some (JStr ''Stable Diffusion error'')))))"

text \<open>Lines 82 and 83.\<close>

definition maxAttempts :: nat where
  "maxAttempts = 6"

definition delayMs :: nat where
  "delayMs = 5000"

text \<open>Lines 89 to 92, and the conversion of the result to a string that \<^verbatim>\<open>fetch\<close> makes.
  \<^verbatim>\<open>fetch_result\<close> is truthy here but need not be a string: on an array \<^verbatim>\<open>includes\<close> looks
  for an element, on any other value it is not a function. With no key nothing is
  called on it. Where the value is converted to a string, by the template literal or by
  \<^verbatim>\<open>fetch\<close>, the conversion can throw.\<close>

definition urlWithKey :: "config \<Rightarrow> js \<Rightarrow> error + string" where
  "urlWithKey cfg fetchUrl =
     (if SD_API_KEY cfg \<noteq> [] then
        (case fetchUrl of
           Some (JStr u) \<Rightarrow>
             if \<not> sublist ''key='' u
             then Inr (u @ (if sublist ''?'' u then ''&'' else ''?'') @ ''key='' @
                       encodeURIComponent (SD_API_KEY cfg))
             else Inr u
         | Some (JArr xs) \<Rightarrow>
             (case ToString fetchUrl of
                None \<Rightarrow> Inl TypeError
              | Some t \<Rightarrow>
                  if \<not> JStr ''key='' \<in> set xs
                  then Inr (t @ (if JStr ''?'' \<in> set xs then ''&'' else ''?'') @
                            ''key='' @ encodeURIComponent (SD_API_KEY cfg))
                  else Inr t)
         | _ \<Rightarrow> Inl TypeError)
      else (case ToString fetchUrl of None \<Rightarrow> Inl TypeError | Some t \<Rightarrow> Inr t))"

text \<open>Lines 94 to 104. \<^verbatim>\<open>JSON.stringify\<close> leaves out a property that is \<^verbatim>\<open>undefined\<close>.\<close>

definition pollRequest :: "config \<Rightarrow> string \<Rightarrow> json \<Rightarrow> request" where
  "pollRequest cfg u initialData =
     \<lparr>req_url = u, req_method = ''POST'',
      req_headers = [''Accept'' \<mapsto> ''application/json'', ''Content-Type'' \<mapsto> ''application/json''],
      req_body = JSON_stringify (JObj ((''key'', JStr (SD_API_KEY cfg)) #
        (case getProp ''id'' (Some initialData) of
           None \<Rightarrow> [] | Some v \<Rightarrow> [(''request_id'', v)])))\<rparr>"

text \<open>Lines 115 to 118: the error check on a poll body.\<close>

definition isPollError :: "js \<Rightarrow> bool" where
  "isPollError d =
     (getProp ''status'' d = Some (JStr ''error'') \<or> truthy (getProp ''error'' d))"

definition pollError :: "js \<Rightarrow> error" where
  "pollError d =
     newError (ToString (js_or (js_or (getProp ''message'' d) (getProp ''error'' d))
                               (Some (JStr ''Stable Diffusion polling error''))))"

text \<open>Lines 87 to 118: one pass of the loop body up to the error check. It gives the
  events of the pass and either the error thrown or the new \<^verbatim>\<open>lastData\<close>.\<close>

definition pollAttempt :: "config \<Rightarrow> network \<Rightarrow> js \<Rightarrow> json \<Rightarrow> nat \<Rightarrow> event list \<times> (error + json)" where
  "pollAttempt cfg net fetchUrl initialData attempt =
     (case urlWithKey cfg fetchUrl of
        Inl e \<Rightarrow> ([Sleep delayMs], Inl e)
      | Inr u \<Rightarrow>
          (let req = pollRequest cfg u initialData; evs = [Sleep delayMs, Fetch req] in
           case net (Suc attempt) req of
             Inl e \<Rightarrow> (evs, Inl e)
           | Inr pollRes \<Rightarrow>
               if \<not> ok pollRes then
                 (case response_text pollRes False of
                    Inl e \<Rightarrow> (evs, Inl e)
                  | Inr pollText \<Rightarrow> (evs, Inl (Error (''Stable Diffusion poll failed: '' @ pollText))))
               else
                 (case response_json pollRes False of
                    Inl e \<Rightarrow>
                      (case response_text pollRes True of
                         Inl e' \<Rightarrow> (evs, Inl e')
                       | Inr pollText \<Rightarrow>
                           (evs, Inl (Error (''Stable Diffusion poll parse failed: '' @ pollText))))
                  | Inr lastData \<Rightarrow>
                      if isPollError (Some lastData) then (evs, Inl (pollError (Some lastData)))
                      else (evs, Inr lastData))))"

text \<open>Lines 86 to 125: the loop, from \<open>attempt\<close> on. It gives the events and either the
  error thrown or the values of \<^verbatim>\<open>image\<close> and \<^verbatim>\<open>lastData\<close> when the loop is left.\<close>

function pollLoop ::
  "config \<Rightarrow> network \<Rightarrow> js \<Rightarrow> json \<Rightarrow> nat \<Rightarrow> js \<Rightarrow> json \<Rightarrow> event list \<times> (error + js \<times> json)" where
  "pollLoop cfg net fetchUrl initialData attempt img lastData =
     (if attempt < maxAttempts \<and> \<not> truthy img then
        (case pollAttempt cfg net fetchUrl initialData attempt of
           (evs, Inl e) \<Rightarrow> (evs, Inl e)
         | (evs, Inr lastData') \<Rightarrow>
             (let img' = parseImage (Some lastData') in
              if getProp ''status'' (Some lastData') \<noteq> Some (JStr ''processing'') \<and> \<not> truthy img'
              then (evs, Inr (img', lastData'))
              else (case pollLoop cfg net fetchUrl initialData (Suc attempt) img' lastData' of
                      (evs', r) \<Rightarrow> (evs @ evs', r))))
      else ([], Inr (img, lastData)))"
  by pat_completeness auto
termination
  by (relation "measure (\<lambda>(cfg, net, fetchUrl, initialData, attempt, img, lastData). maxAttempts - attempt)")
     auto

declare pollLoop.simps [simp del]

text \<open>Lines 49 to 140.\<close>

definition requestAndPoll :: "config \<Rightarrow> network \<Rightarrow> string \<Rightarrow> json \<Rightarrow> event list \<times> (error + string)" where
  "requestAndPoll cfg net endpoint payload =
     (let req = initialRequest cfg endpoint payload in
      case net 0 req of
        Inl e \<Rightarrow> ([Fetch req], Inl e)
      | Inr response \<Rightarrow>
          if \<not> ok response then
            (case response_text response False of
               Inl e \<Rightarrow> ([Fetch req], Inl e)
             | Inr txt \<Rightarrow> ([Fetch req], Inl (Error (''Stable Diffusion request failed: '' @ txt))))
          else
            (case response_json response False of
               Inl e \<Rightarrow> ([Fetch req], Inl e)
             | Inr initialData \<Rightarrow>
                 if initialData = JNull then ([Fetch req], Inl TypeError)
                 else if isInitialError (Some initialData)
                 then ([Fetch req], Inl (initialError (Some initialData)))
                 else
                   (let img = parseImage (Some initialData) in
                    if \<not> truthy img \<and>
                       getProp ''status'' (Some initialData) = Some (JStr ''processing'') \<and>
                       truthy (getProp ''fetch_result'' (Some initialData))
                    then
                      (case pollLoop cfg net (getProp ''fetch_result'' (Some initialData))
                              initialData 0 img initialData of
                         (evs, Inl e) \<Rightarrow> (Fetch req # evs, Inl e)
                       | (evs, Inr (img', lastData)) \<Rightarrow>
                           if \<not> truthy img' then
                             (Fetch req # evs,
                              Inl (Error (''No image returned from Stable Diffusion after polling. Payload: '' @
                                          take 400 (JSON_stringify lastData))))
                           else (Fetch req # evs, normalizeResult img'))
                    else if \<not> truthy img then
                      ([Fetch req],
                       Inl (Error (''No image returned from Stable Diffusion. Payload: '' @
                                   take 400 (JSON_stringify initialData))))
                    else ([Fetch req], normalizeResult img))))"

text \<open>Decimal digits of a natural number, for the seed.\<close>

fun decimal :: "nat \<Rightarrow> string" where
  "decimal n = (if n < 10 then [char_of (48 + n)] else decimal (n div 10) @ [char_of (48 + n mod 10)])"

text \<open>Lines 142 to 180. \<open>seed\<close> is the value of
  \<^verbatim>\<open>Math.floor(Math.random() * 10_000_000)\<close>; \<open>baseImage\<close> is \<^verbatim>\<open>options?.baseImage\<close>.\<close>

definition basePayload :: "config \<Rightarrow> string \<Rightarrow> nat \<Rightarrow> (string \<times> json) list" where
  "basePayload cfg prompt seed =
     [(''model_id'', JStr (SD_MODEL cfg)),
      (''prompt'', JStr prompt),
      (''width'', JStr (SD_WIDTH cfg)),
      (''height'', JStr (SD_HEIGHT cfg)),
      (''num_inference_steps'', JNum ''30''),
      (''samples'', JNum (SD_SAMPLES cfg)),
      (''seed'', JNum (decimal seed)),
      (''negative_prompt'', JStr ''blurry, low quality, watermark, text, logo, deformed, disfigured, bad anatomy, extra limbs, cropped, out of frame''),
      (''key'', JStr (SD_API_KEY cfg))]"

definition generateQuantumManifestation ::
  "config \<Rightarrow> network \<Rightarrow> nat \<Rightarrow> AtomType \<Rightarrow> EntityType \<Rightarrow> WaveParams \<Rightarrow> string option \<Rightarrow>
   event list \<times> (error + string)" where
  "generateQuantumManifestation cfg net seed atom entity params baseImage =
     (let prompt = buildPrompt atom entity params;
          base = basePayload cfg prompt seed
      in case baseImage of
           Some (c # cs) \<Rightarrow>
             (let initImage =
                    (if prefix ''http'' (c # cs) \<or> prefix ''data:'' (c # cs) then c # cs
                     else ''data:image/png;base64,'' @ (c # cs));
                  imgPayload =
                    AList.update ''key'' (JStr (SD_API_KEY cfg))
                      (AList.update ''prompt'' (JStr prompt)
                        (AList.update ''init_image'' (JArr [JStr initImage]) base))
              in requestAndPoll cfg net (SD_IMG2IMG_ENDPOINT cfg) (JObj imgPayload))
         | _ \<Rightarrow> requestAndPoll cfg net (SD_ENDPOINT cfg) (JObj base))"

section \<open>The specification's words\<close>

text \<open>From the specification (section 4.5), not from the source: a string "beginning
  with an HTTP(S) scheme".\<close>

definition spec_httpScheme :: "string \<Rightarrow> bool" where
  "spec_httpScheme s = (prefix ''http://'' s \<or> prefix ''https://'' s)"

text \<open>From the specification (section 4.4), not from the source: "Tries, in order, a
  single image field, first element of an images array, first element of an output
  array, the base64 field of the first artifacts array element, the base64-or-URL field
  of the first data array element. Returns the first present, non-empty match;
  otherwise absent." A value is taken as present and non-empty when it is truthy, which
  for a string is being non-empty.\<close>

fun spec_firstElement :: "js \<Rightarrow> js" where
  "spec_firstElement (Some (JArr (x # xs))) = Some x"
| "spec_firstElement v = None"

definition spec_candidates :: "js \<Rightarrow> js list" where
  "spec_candidates d =
     [getProp ''image'' d,
      spec_firstElement (getProp ''images'' d),
      spec_firstElement (getProp ''output'' d),
      getProp ''base64'' (spec_firstElement (getProp ''artifacts'' d)),
      getProp ''b64_json'' (spec_firstElement (getProp ''data'' d)),
      getProp ''url'' (spec_firstElement (getProp ''data'' d))]"

definition spec_extractImage :: "js \<Rightarrow> js" where
  "spec_extractImage d = (case filter truthy (spec_candidates d) of [] \<Rightarrow> None | v # vs \<Rightarrow> v)"

text \<open>What the callers of \<^verbatim>\<open>parseImage\<close> see of its result: they only test \<^verbatim>\<open>!image\<close>, so
  an empty value counts as absent.\<close>

definition nonEmpty :: "js \<Rightarrow> js" where
  "nonEmpty v = (if truthy v then v else None)"

section \<open>Example inputs\<close>

text \<open>A configuration with a key sent as a bearer token, and the bodies of the
  specification's end-to-end scenario: an initial response that is still processing and
  names a poll URL, a poll that is still processing, a poll that is still processing
  and has an error field, a poll that ends with no image, a
  poll with an image, a poll with a failed status, and a response whose body is not
  JSON.\<close>

definition example_config :: config where
  "example_config =
     \<lparr>SD_ENDPOINT = ''https://modelslab.com/api/v6/images/text2img'',
      SD_IMG2IMG_ENDPOINT = ''https://modelslab.com/api/v6/images/img2img'',
      SD_API_KEY = ''abc123'', SD_API_KEY_HEADER = ''Authorization'',
      SD_MODEL = ''flux-2-dev'', SD_WIDTH = ''1024'', SD_HEIGHT = ''1024'',
      SD_SAMPLES = ''1''\<rparr>"

definition jsonResponse :: "json \<Rightarrow> response" where
  "jsonResponse d = \<lparr>ok = True, content = Body (JSON_stringify d) (Some d)\<rparr>"

definition processingInitial :: json where
  "processingInitial =
     JObj [(''status'', JStr ''processing''), (''fetch_result'', JStr ''https://p/poll''),
           (''id'', JStr ''r1'')]"

definition processingPoll :: json where
  "processingPoll = JObj [(''status'', JStr ''processing'')]"

definition processingErrorPoll :: json where
  "processingErrorPoll = JObj [(''status'', JStr ''processing''), (''error'', JStr ''boom'')]"

definition finishedPoll :: json where
  "finishedPoll = JObj [(''status'', JStr ''success'')]"

definition imagePoll :: json where
  "imagePoll = JObj [(''image'', JStr ''https://cdn/img.png'')]"

definition failedPoll :: json where
  "failedPoll = JObj [(''status'', JStr ''failed''), (''message'', JStr ''GPU out of memory'')]"

definition htmlResponse :: response where
  "htmlResponse = \<lparr>ok = True, content = Body ''<html>502 Bad Gateway</html>'' None\<rparr>"

section \<open>Properties of the Prompt Builder\<close>

text \<open>Claim C5. For every wavelength and amplitude the intensity adjective is "intense"
  above 1.5, "subtle" below 0.8 and "moderate" otherwise, the bounds 1.5 and 0.8
  included; the density adjective is "dense" above 1.5, "sparse" below 0.8 and "flowing"
  otherwise; and the prompt returned is the fixed sentence with both adjectives, the
  subject and the atom in their places.\<close>

theorem buildPrompt_adjectives:
  "(wavelength p > 1.5 \<longrightarrow> intensity p = ''intense'') \<and>
   (wavelength p < 0.8 \<longrightarrow> intensity p = ''subtle'') \<and>
   (0.8 \<le> wavelength p \<and> wavelength p \<le> 1.5 \<longrightarrow> intensity p = ''moderate'') \<and>
   (amplitude p > 1.5 \<longrightarrow> density p = ''dense'') \<and>
   (amplitude p < 0.8 \<longrightarrow> density p = ''sparse'') \<and>
   (0.8 \<le> amplitude p \<and> amplitude p \<le> 1.5 \<longrightarrow> density p = ''flowing'') \<and>
   buildPrompt atom subject p =
     ''A '' @ subject @ '' materializing from '' @ intensity p @ '' quantum energy waves, '' @
     density p @ '' streams of turquoise and emerald light converging around '' @ atomName atom @
     '' atoms. Set in a futuristic physics laboratory with holographic displays and volumetric lighting. Cinematic composition, ray-traced reflections, 8k ultra-detailed, atmospheric depth.''"
  by (simp add: intensity_def density_def buildPrompt_def)

text \<open>The theorem of C5 above and below each bound, and at 1.5 and 0.8 themselves.\<close>

theorem buildPrompt_adjectives_witness:
  "intensity \<lparr>wavelength = 1.6, amplitude = 0.7\<rparr> = ''intense'' \<and>
   density \<lparr>wavelength = 1.6, amplitude = 0.7\<rparr> = ''sparse'' \<and>
   intensity \<lparr>wavelength = 0.7, amplitude = 1.6\<rparr> = ''subtle'' \<and>
   density \<lparr>wavelength = 0.7, amplitude = 1.6\<rparr> = ''dense'' \<and>
   intensity \<lparr>wavelength = 1.5, amplitude = 0.8\<rparr> = ''moderate'' \<and>
   density \<lparr>wavelength = 1.5, amplitude = 0.8\<rparr> = ''flowing'' \<and>
   intensity \<lparr>wavelength = 0.8, amplitude = 1.5\<rparr> = ''moderate'' \<and>
   density \<lparr>wavelength = 0.8, amplitude = 1.5\<rparr> = ''flowing''"
  using buildPrompt_adjectives [of "\<lparr>wavelength = 1.6, amplitude = 0.7\<rparr>"]
    buildPrompt_adjectives [of "\<lparr>wavelength = 0.7, amplitude = 1.6\<rparr>"]
    buildPrompt_adjectives [of "\<lparr>wavelength = 1.5, amplitude = 0.8\<rparr>"]
    buildPrompt_adjectives [of "\<lparr>wavelength = 0.8, amplitude = 1.5\<rparr>"]
  by simp


section \<open>Properties of the Response Parser\<close>

text \<open>Where the code's \<^verbatim>\<open>?.[0]\<close> and the first element of an array part: only on a value
  that is no array and yet has a non-empty element 0, which is a non-empty string or an
  object with a non-empty property \<^verbatim>\<open>"0"\<close>.\<close>

lemma index0_firstElement:
  assumes "isArray v \<or> \<not> truthy (index0 v)"
  shows "truthy (spec_firstElement v) = truthy (index0 v)"
    and "truthy (index0 v) \<Longrightarrow> spec_firstElement v = index0 v"
  using assms by (cases v rule: spec_firstElement.cases; auto)+

lemma firstElement_isArray: "spec_firstElement v = (if isArray v then index0 v else None)"
  by (cases v rule: spec_firstElement.cases) auto

text \<open>On every body whose \<^verbatim>\<open>images\<close> and \<^verbatim>\<open>output\<close> are not of that kind (so on every
  body that has them as arrays, as \<^verbatim>\<open>null\<close>, as numbers, as booleans, as the empty string,
  or not at all) \<^verbatim>\<open>parseImage\<close> is the extraction the specification describes; a
  non-empty image field wins over everything else on every body; a body with only
  \<^verbatim>\<open>artifacts[0].base64\<close> gives that value.\<close>

lemma parseImage_priority:
  assumes "isArray (getProp ''images'' d) \<or> \<not> truthy (index0 (getProp ''images'' d))"
    and "isArray (getProp ''output'' d) \<or> \<not> truthy (index0 (getProp ''output'' d))"
  shows "nonEmpty (parseImage d) = spec_extractImage d"
proof -
  note i = index0_firstElement [OF assms(1)]
  note out = index0_firstElement [OF assms(2)]
  have art: "spec_firstElement (getProp ''artifacts'' d) =
      (if isArray (getProp ''artifacts'' d) then index0 (getProp ''artifacts'' d) else None)"
    and dat: "spec_firstElement (getProp ''data'' d) =
      (if isArray (getProp ''data'' d) then index0 (getProp ''data'' d) else None)"
    by (rule firstElement_isArray)+
  show ?thesis
  proof (cases "truthy (index0 (getProp ''images'' d))")
    case True
    with i show ?thesis
      by (simp add: parseImage_def spec_extractImage_def spec_candidates_def js_or_def nonEmpty_def)
  next
    case noimages: False
    show ?thesis
    proof (cases "truthy (index0 (getProp ''output'' d))")
      case True
      with noimages i out show ?thesis
        by (simp add: parseImage_def spec_extractImage_def spec_candidates_def js_or_def
            nonEmpty_def)
    next
      case False
      with noimages i(1) out(1) show ?thesis
        by (simp add: parseImage_def spec_extractImage_def spec_candidates_def js_or_def
            nonEmpty_def art dat)
    qed
  qed
qed

lemma parseImage_image_wins: "truthy (getProp ''image'' d) \<Longrightarrow> parseImage d = getProp ''image'' d"
  by (simp add: parseImage_def js_or_def)

lemma parseImage_artifacts_only:
  "truthy (Some b) \<Longrightarrow>
   parseImage (Some (JObj [(''artifacts'', JArr (JObj [(''base64'', b)] # rest))])) = Some b"
  by (simp add: parseImage_def js_or_def)

text \<open>Claim C4 does not hold of the code: \<^verbatim>\<open>data?.images?.[0]\<close> and \<^verbatim>\<open>data?.output?.[0]\<close>
  (lines 42 and 43) do not ask whether the field is an array, which the two operands
  after them (lines 44 and 45) do with \<^verbatim>\<open>Array.isArray\<close>. On the body
  \<^verbatim>\<open>{"output": "https://cdn/img.png"}\<close> there is no output array, so the extraction the
  claim describes finds nothing; \<^verbatim>\<open>parseImage\<close> returns the first character of the string,
  and a call that gets this body as its initial response returns
  \<^verbatim>\<open>data:image/png;base64,h\<close> as its result.\<close>

theorem parseImage_string_output_first_character:
  "parseImage (Some (JObj [(''output'', JStr ''https://cdn/img.png'')])) = Some (JStr ''h'') \<and>
   spec_extractImage (Some (JObj [(''output'', JStr ''https://cdn/img.png'')])) = None \<and>
   snd (requestAndPoll cfg
          (\<lambda>n req. Inr (jsonResponse (JObj [(''output'', JStr ''https://cdn/img.png'')])))
          endpoint payload) = Inr ''data:image/png;base64,h''"
proof -
  have p: "parseImage (Some (JObj [(''output'', JStr ''https://cdn/img.png'')])) = Some (JStr ''h'')"
    by (simp add: parseImage_def js_or_def)
  have "normalizeResult (Some (JStr ''h'')) = Inr ''data:image/png;base64,h''"
    by (simp add: normalizeResult_def ToString_def isUrl_def)
  then have "snd (requestAndPoll cfg
          (\<lambda>n req. Inr (jsonResponse (JObj [(''output'', JStr ''https://cdn/img.png'')])))
          endpoint payload) = Inr ''data:image/png;base64,h''"
    by (simp add: requestAndPoll_def jsonResponse_def response_json_def isInitialError_def p)
  with p show ?thesis
    by (simp add: spec_extractImage_def spec_candidates_def)
qed

section \<open>Properties of result normalization\<close>

lemma isUrl_JStr: "isUrl (Some (JStr s)) = prefix ''http'' s"
  by (simp add: isUrl_def)

text \<open>Claim C6, as stated, fails: the test is \<^verbatim>\<open>startsWith("http")\<close>, not a test for a
  scheme. The string \<^verbatim>\<open>httpxyz\<close> begins with no HTTP(S) scheme and is returned as it is,
  not behind the data prefix.\<close>

theorem normalizeResult_scheme_counterexample:
  "\<not> spec_httpScheme ''httpxyz'' \<and>
   normalizeResult (Some (JStr ''httpxyz'')) = Inr ''httpxyz'' \<and>
   normalizeResult (Some (JStr ''httpxyz'')) \<noteq> Inr ''data:image/png;base64,httpxyz''"
  by (simp add: spec_httpScheme_def normalizeResult_def isUrl_def ToString_def)

text \<open>Claim C6, amended. For every extracted image reference that converts to a string
  (every value but an object with a \<^verbatim>\<open>toString\<close> property of its own, or an array that
  holds one): if it is a string that begins with the four characters \<^verbatim>\<open>http\<close> it is
  returned unchanged, otherwise the result is \<^verbatim>\<open>data:image/png;base64,\<close> followed by the
  value converted to a string; \<^verbatim>\<open>https://x/y.png\<close> is returned unchanged and \<^verbatim>\<open>aGVsbG8=\<close>
  comes back as \<^verbatim>\<open>data:image/png;base64,aGVsbG8=\<close>.\<close>

theorem normalizeResult_cases:
  "(ToString v = Some t \<longrightarrow>
      normalizeResult v =
        Inr (case v of
               Some (JStr s) \<Rightarrow> if prefix ''http'' s then s else ''data:image/png;base64,'' @ s
             | _ \<Rightarrow> ''data:image/png;base64,'' @ t)) \<and>
   normalizeResult (Some (JStr ''https://x/y.png'')) = Inr ''https://x/y.png'' \<and>
   normalizeResult (Some (JStr ''aGVsbG8='')) = Inr ''data:image/png;base64,aGVsbG8=''"
  by (auto simp: normalizeResult_def isUrl_def ToString_def split: option.splits json.splits)

text \<open>The amended C6 on a URL, on a base64 text, on a number and on an array.\<close>

theorem normalizeResult_cases_witness:
  "normalizeResult (Some (JStr ''https://x/y.png'')) = Inr ''https://x/y.png'' \<and>
   normalizeResult (Some (JStr ''aGVsbG8='')) = Inr ''data:image/png;base64,aGVsbG8='' \<and>
   normalizeResult (Some (JNum ''42'')) = Inr ''data:image/png;base64,42'' \<and>
   normalizeResult (Some (JArr [JStr ''a'', JNull, JObj []])) =
     Inr ''data:image/png;base64,a,,[object Object]''"
proof -
  have "ToString (Some (JArr [JStr ''a'', JNull, JObj []])) = Some ''a,,[object Object]''"
    by (simp add: ToString_def)
  then show ?thesis
    using normalizeResult_cases [of "Some (JStr ''https://x/y.png'')" "''https://x/y.png''"]
      normalizeResult_cases [of "Some (JStr ''aGVsbG8='')" "''aGVsbG8=''"]
      normalizeResult_cases [of "Some (JNum ''42'')" "''42''"]
      normalizeResult_cases [of "Some (JArr [JStr ''a'', JNull, JObj []])" "''a,,[object Object]''"]
    by (simp add: ToString_def)
qed

text \<open>Where the conversion throws, the call fails: an image object with a \<^verbatim>\<open>toString\<close>
  property of its own.\<close>

lemma normalizeResult_toString_object:
  "normalizeResult (Some (JObj [(''toString'', JNull)])) = Inl TypeError"
  by (simp add: normalizeResult_def ToString_def)

text \<open>Claim C10. Result normalization looks only at the literal prefix \<^verbatim>\<open>http\<close>: every
  string that does not begin with it, a \<^verbatim>\<open>data:\<close> reference included, is wrapped as
  \<^verbatim>\<open>data:image/png;base64,\<close> followed by the string, and every string that begins with
  it, a URL or not, is returned unchanged.\<close>

theorem normalizeResult_literal_prefix:
  "(\<not> prefix ''http'' s \<longrightarrow>
      normalizeResult (Some (JStr s)) = Inr (''data:image/png;base64,'' @ s)) \<and>
   (prefix ''http'' s \<longrightarrow> normalizeResult (Some (JStr s)) = Inr s)"
  by (simp add: normalizeResult_def isUrl_JStr ToString_def)

text \<open>The theorem of C10 on a data reference, wrapped a second time, and on
  \<^verbatim>\<open>httpxyz\<close>.\<close>

theorem normalizeResult_literal_prefix_witness:
  "normalizeResult (Some (JStr ''data:image/png;base64,AAAA'')) =
     Inr ''data:image/png;base64,data:image/png;base64,AAAA'' \<and>
   normalizeResult (Some (JStr ''httpxyz'')) = Inr ''httpxyz''"
  using normalizeResult_literal_prefix [of "''data:image/png;base64,AAAA''"]
    normalizeResult_literal_prefix [of "''httpxyz''"]
  by simp

section \<open>Properties of the Generation Client\<close>

subsection \<open>The headers of the initial request\<close>

text \<open>The first thing a call does is the initial \<^verbatim>\<open>fetch\<close>.\<close>

lemma initial_request_first:
  "\<exists>rest. fst (requestAndPoll cfg net endpoint payload) =
     Fetch (initialRequest cfg endpoint payload) # rest"
  by (simp add: requestAndPoll_def Let_def split: sum.splits prod.splits)

text \<open>For every header name but \<^verbatim>\<open>__proto__\<close> the code does what claim C9 says: with a key
  and a header name the request carries the header of that name, with value "Bearer "
  and the key when the name is "authorization" in any letter case, and the bare key
  otherwise, beside Content-Type and Accept and nothing else; with the key or the
  header name empty it carries Content-Type and Accept only.\<close>

lemma credential_header:
  "(SD_API_KEY cfg \<noteq> [] \<and> SD_API_KEY_HEADER cfg \<noteq> [] \<and> SD_API_KEY_HEADER cfg \<noteq> ''__proto__'' \<longrightarrow>
      req_headers (initialRequest cfg endpoint payload) (SD_API_KEY_HEADER cfg) =
        Some (if toLowerCase (SD_API_KEY_HEADER cfg) = ''authorization''
              then ''Bearer '' @ SD_API_KEY cfg else SD_API_KEY cfg) \<and>
      dom (req_headers (initialRequest cfg endpoint payload)) =
        {''Content-Type'', ''Accept'', SD_API_KEY_HEADER cfg}) \<and>
   (SD_API_KEY cfg = [] \<or> SD_API_KEY_HEADER cfg = [] \<longrightarrow>
      req_headers (initialRequest cfg endpoint payload) =
        [''Content-Type'' \<mapsto> ''application/json'', ''Accept'' \<mapsto> ''application/json''])"
  by (auto simp: initialRequest_def requestHeaders_def setHeader_def Let_def)

text \<open>The specification's three configurations: the header name Authorization with the
  key abc123, the header name X-API-KEY with the same key, and a blank header name.\<close>

lemma credential_header_examples:
  "req_headers (initialRequest example_config ''https://e'' (JObj [])) ''Authorization'' =
     Some ''Bearer abc123'' \<and>
   req_headers (initialRequest (example_config\<lparr>SD_API_KEY_HEADER := ''X-API-KEY''\<rparr>)
     ''https://e'' (JObj [])) ''X-API-KEY'' = Some ''abc123'' \<and>
   req_headers (initialRequest (example_config\<lparr>SD_API_KEY_HEADER := ''''\<rparr>) ''https://e'' (JObj [])) =
     [''Content-Type'' \<mapsto> ''application/json'', ''Accept'' \<mapsto> ''application/json'']"
proof -
  have "toLowerCase ''Authorization'' = ''authorization''"
    "toLowerCase ''X-API-KEY'' \<noteq> ''authorization''"
    by code_simp+
  then show ?thesis
    using credential_header [of example_config "''https://e''" "JObj []"]
      credential_header [of "example_config\<lparr>SD_API_KEY_HEADER := ''X-API-KEY''\<rparr>" "''https://e''" "JObj []"]
      credential_header [of "example_config\<lparr>SD_API_KEY_HEADER := ''''\<rparr>" "''https://e''" "JObj []"]
    by (simp add: example_config_def)
qed

text \<open>Claim C9 does not hold of the code: the header is set by the assignment
  \<^verbatim>\<open>headers[SD_API_KEY_HEADER] = ...\<close> on a plain object (line 55), and for the header name
  \<^verbatim>\<open>__proto__\<close> that assignment sets nothing. With the key abc123 and the header name
  \<^verbatim>\<open>__proto__\<close>, a name other than Authorization, the initial request carries
  Content-Type and Accept and no credential header, where the claim has it carry the
  bare key.\<close>

theorem credential_header_proto_dropped:
  "SD_API_KEY (example_config\<lparr>SD_API_KEY_HEADER := ''__proto__''\<rparr>) = ''abc123'' \<and>
   req_headers (initialRequest (example_config\<lparr>SD_API_KEY_HEADER := ''__proto__''\<rparr>)
     endpoint payload) ''__proto__'' = None \<and>
   req_headers (initialRequest (example_config\<lparr>SD_API_KEY_HEADER := ''__proto__''\<rparr>)
     endpoint payload) =
     [''Content-Type'' \<mapsto> ''application/json'', ''Accept'' \<mapsto> ''application/json''] \<and>
   (\<exists>rest. fst (requestAndPoll (example_config\<lparr>SD_API_KEY_HEADER := ''__proto__''\<rparr>) net
       endpoint payload) =
     Fetch (initialRequest (example_config\<lparr>SD_API_KEY_HEADER := ''__proto__''\<rparr>)
       endpoint payload) # rest)"
  using initial_request_first [of "example_config\<lparr>SD_API_KEY_HEADER := ''__proto__''\<rparr>" net
      endpoint payload]
  by (simp add: initialRequest_def requestHeaders_def setHeader_def example_config_def)

subsection \<open>The polling loop\<close>

lemma pollLoop_exit:
  "\<not> (attempt < maxAttempts \<and> \<not> truthy img) \<Longrightarrow>
   pollLoop cfg net f d0 attempt img ld = ([], Inr (img, ld))"
  by (subst pollLoop.simps) auto

lemma pollLoop_step:
  "attempt < maxAttempts \<Longrightarrow> \<not> truthy img \<Longrightarrow>
   pollLoop cfg net f d0 attempt img ld =
     (case pollAttempt cfg net f d0 attempt of
        (evs, Inl e) \<Rightarrow> (evs, Inl e)
      | (evs, Inr lastData') \<Rightarrow>
          (let img' = parseImage (Some lastData') in
           if getProp ''status'' (Some lastData') \<noteq> Some (JStr ''processing'') \<and> \<not> truthy img'
           then (evs, Inr (img', lastData'))
           else (case pollLoop cfg net f d0 (Suc attempt) img' lastData' of
                   (evs', r) \<Rightarrow> (evs @ evs', r))))"
  by (subst pollLoop.simps) simp

text \<open>A poll that is answered with a JSON body free of an error status and an error
  field: the pass waits, fetches, and hands the body on.\<close>

lemma pollAttempt_json:
  assumes "urlWithKey cfg f = Inr purl"
    and "net (Suc a) (pollRequest cfg purl d0) = Inr \<lparr>ok = True, content = Body raw (Some d)\<rparr>"
    and "\<not> isPollError (Some d)"
  shows "pollAttempt cfg net f d0 a = ([Sleep 5000, Fetch (pollRequest cfg purl d0)], Inr d)"
  using assms by (simp add: pollAttempt_def response_json_def delayMs_def)

lemma concat_replicate_snoc: "concat (replicate k E) @ E = concat (replicate (Suc k) E)"
  by (induction k) auto

text \<open>A run of \<open>n\<close> polls, from attempt \<open>a\<close> on, that all say "processing" and carry no
  image: the loop waits and fetches \<open>n\<close> times and goes on from attempt \<open>a + n\<close> with the
  last body.\<close>

lemma pollLoop_processing:
  assumes url: "urlWithKey cfg f = Inr purl"
    and polls: "\<forall>j. a \<le> j \<and> j < a + n \<longrightarrow>
       net (Suc j) (pollRequest cfg purl d0) = Inr \<lparr>ok = True, content = Body (raws j) (Some (polls j))\<rparr> \<and>
       getProp ''status'' (Some (polls j)) = Some (JStr ''processing'') \<and>
       \<not> truthy (parseImage (Some (polls j))) \<and>
       \<not> truthy (getProp ''error'' (Some (polls j)))"
    and bound: "a + n \<le> 6"
    and img: "\<not> truthy img"
  shows "pollLoop cfg net f d0 a img ld =
     (concat (replicate n [Sleep 5000, Fetch (pollRequest cfg purl d0)]) @
        fst (pollLoop cfg net f d0 (a + n)
               (if n = 0 then img else parseImage (Some (polls (a + n - 1))))
               (if n = 0 then ld else polls (a + n - 1))),
      snd (pollLoop cfg net f d0 (a + n)
               (if n = 0 then img else parseImage (Some (polls (a + n - 1))))
               (if n = 0 then ld else polls (a + n - 1))))"
  using polls bound img
proof (induction n arbitrary: a img ld)
  case 0
  then show ?case by simp
next
  case (Suc n)
  have here: "net (Suc a) (pollRequest cfg purl d0) = Inr \<lparr>ok = True, content = Body (raws a) (Some (polls a))\<rparr>"
    "getProp ''status'' (Some (polls a)) = Some (JStr ''processing'')"
    "\<not> truthy (parseImage (Some (polls a)))"
    "\<not> truthy (getProp ''error'' (Some (polls a)))"
    using Suc.prems(1) by auto
  then have att: "pollAttempt cfg net f d0 a = ([Sleep 5000, Fetch (pollRequest cfg purl d0)], Inr (polls a))"
    using url by (intro pollAttempt_json) (auto simp: isPollError_def)
  have lt: "a < maxAttempts" using Suc.prems(2) by (simp add: maxAttempts_def)
  have rest: "\<forall>j. Suc a \<le> j \<and> j < Suc a + n \<longrightarrow>
       net (Suc j) (pollRequest cfg purl d0) = Inr \<lparr>ok = True, content = Body (raws j) (Some (polls j))\<rparr> \<and>
       getProp ''status'' (Some (polls j)) = Some (JStr ''processing'') \<and>
       \<not> truthy (parseImage (Some (polls j))) \<and>
       \<not> truthy (getProp ''error'' (Some (polls j)))"
    using Suc.prems(1) by auto
  have ih: "pollLoop cfg net f d0 (Suc a) (parseImage (Some (polls a))) (polls a) =
     (concat (replicate n [Sleep 5000, Fetch (pollRequest cfg purl d0)]) @
        fst (pollLoop cfg net f d0 (Suc a + n)
               (if n = 0 then parseImage (Some (polls a)) else parseImage (Some (polls (Suc a + n - 1))))
               (if n = 0 then polls a else polls (Suc a + n - 1))),
      snd (pollLoop cfg net f d0 (Suc a + n)
               (if n = 0 then parseImage (Some (polls a)) else parseImage (Some (polls (Suc a + n - 1))))
               (if n = 0 then polls a else polls (Suc a + n - 1))))"
    using Suc.prems(2) here(3) by (intro Suc.IH [OF rest]) auto
  have same: "(if n = 0 then parseImage (Some (polls a)) else parseImage (Some (polls (Suc a + n - 1)))) =
      parseImage (Some (polls (a + Suc n - 1)))"
    "(if n = 0 then polls a else polls (Suc a + n - 1)) = polls (a + Suc n - 1)"
    by auto
  show ?case
    using lt Suc.prems(3) here(2) by (simp add: pollLoop_step att ih [unfolded same] split: prod.splits)
qed

text \<open>For a \<^verbatim>\<open>fetch_result\<close> that is a string the poll URL is always there.\<close>

lemma urlWithKey_string: "\<exists>purl. urlWithKey cfg (Some (JStr u)) = Inr purl"
  by (simp add: urlWithKey_def ToString_def)

lemma example_pollUrl:
  "urlWithKey example_config (Some (JStr ''https://p/poll'')) = Inr ''https://p/poll?key=abc123''"
  by code_simp

lemma processingInitial_facts:
  "getProp ''status'' (Some processingInitial) = Some (JStr ''processing'')"
  "getProp ''fetch_result'' (Some processingInitial) = Some (JStr ''https://p/poll'')"
  "\<not> truthy (parseImage (Some processingInitial))"
  "\<not> truthy (getProp ''error'' (Some processingInitial))"
  by (simp_all add: processingInitial_def parseImage_def js_or_def)

lemma processingPoll_facts:
  "getProp ''status'' (Some processingPoll) = Some (JStr ''processing'')"
  "\<not> truthy (parseImage (Some processingPoll))"
  "\<not> truthy (getProp ''error'' (Some processingPoll))"
  by (simp_all add: processingPoll_def parseImage_def js_or_def)

lemma finishedPoll_facts:
  "getProp ''status'' (Some finishedPoll) = Some (JStr ''success'')"
  "\<not> truthy (parseImage (Some finishedPoll))"
  "\<not> truthy (getProp ''error'' (Some finishedPoll))"
  by (simp_all add: finishedPoll_def parseImage_def js_or_def)

lemma processingErrorPoll_facts:
  "getProp ''status'' (Some processingErrorPoll) = Some (JStr ''processing'')"
  "\<not> truthy (parseImage (Some processingErrorPoll))"
  "isPollError (Some processingErrorPoll)"
  "pollError (Some processingErrorPoll) = Error ''boom''"
  by (simp_all add: processingErrorPoll_def parseImage_def js_or_def isPollError_def
      pollError_def newError_def ToString_def)

text \<open>Claim C2, as stated, fails: the error check of lines 115 to 118 comes before the
  image extraction and looks at the error field whatever the status is. The poll body
  \<^verbatim>\<open>{"status":"processing","error":"boom"}\<close> has the status "processing" and no
  extractable image, and the call ends after this one poll with the provider's message
  "boom", not after six polls with the no-image error.\<close>

theorem polling_error_field_counterexample:
  "getProp ''status'' (Some processingErrorPoll) = Some (JStr ''processing'') \<and>
   \<not> truthy (parseImage (Some processingErrorPoll)) \<and>
   requestAndPoll example_config
     (\<lambda>n req. Inr (jsonResponse (if n = 0 then processingInitial else processingErrorPoll)))
     ''https://e'' (JObj []) =
   ([Fetch (initialRequest example_config ''https://e'' (JObj [])),
     Sleep 5000,
     Fetch (pollRequest example_config ''https://p/poll?key=abc123'' processingInitial)],
    Inl (Error ''boom''))"
proof -
  let ?net = "\<lambda>n req. Inr (jsonResponse (if n = (0::nat) then processingInitial
                                          else processingErrorPoll)) :: error + response"
  have "pollAttempt example_config ?net (Some (JStr ''https://p/poll'')) processingInitial 0 =
      ([Sleep 5000, Fetch (pollRequest example_config ''https://p/poll?key=abc123'' processingInitial)],
       Inl (Error ''boom''))"
    by (simp add: pollAttempt_def example_pollUrl jsonResponse_def response_json_def delayMs_def
        processingErrorPoll_facts)
  then have "pollLoop example_config ?net (Some (JStr ''https://p/poll'')) processingInitial 0
      (parseImage (Some processingInitial)) processingInitial =
      ([Sleep 5000, Fetch (pollRequest example_config ''https://p/poll?key=abc123'' processingInitial)],
       Inl (Error ''boom''))"
    by (simp add: pollLoop_step maxAttempts_def processingInitial_facts)
  moreover have "processingInitial \<noteq> JNull" "\<not> isInitialError (Some processingInitial)"
    by (simp_all add: processingInitial_def isInitialError_def)
  ultimately have "requestAndPoll example_config ?net ''https://e'' (JObj []) =
   ([Fetch (initialRequest example_config ''https://e'' (JObj [])),
     Sleep 5000,
     Fetch (pollRequest example_config ''https://p/poll?key=abc123'' processingInitial)],
    Inl (Error ''boom''))"
    by (simp add: requestAndPoll_def jsonResponse_def response_json_def processingInitial_facts
        Let_def)
  then show ?thesis
    by (simp add: processingErrorPoll_facts)
qed

text \<open>Claim C2, amended. Let the initial response be a JSON body with status
  "processing", a fetch-result URL, no extractable image and no error field, and let
  each of the six poll responses be a JSON body with status "processing", no extractable
  image and no error field. Then the call makes the initial request and exactly six
  poll requests, each after a wait of 5000, and fails with the error "No image returned
  from Stable Diffusion after polling", which carries the first 400 characters of the
  last poll body.\<close>

theorem polling_exhausts_after_six:
  assumes init: "net 0 (initialRequest cfg endpoint payload) = Inr \<lparr>ok = True, content = Body raw0 (Some d0)\<rparr>"
    and status0: "getProp ''status'' (Some d0) = Some (JStr ''processing'')"
    and fetch0: "getProp ''fetch_result'' (Some d0) = Some (JStr u)" "u \<noteq> []"
    and image0: "\<not> truthy (parseImage (Some d0))"
    and error0: "\<not> truthy (getProp ''error'' (Some d0))"
    and url: "urlWithKey cfg (Some (JStr u)) = Inr purl"
    and polls: "\<forall>k<6.
       net (Suc k) (pollRequest cfg purl d0) = Inr \<lparr>ok = True, content = Body (raws k) (Some (polls k))\<rparr> \<and>
       getProp ''status'' (Some (polls k)) = Some (JStr ''processing'') \<and>
       \<not> truthy (parseImage (Some (polls k))) \<and>
       \<not> truthy (getProp ''error'' (Some (polls k)))"
  shows "requestAndPoll cfg net endpoint payload =
     (Fetch (initialRequest cfg endpoint payload) #
        concat (replicate 6 [Sleep 5000, Fetch (pollRequest cfg purl d0)]),
      Inl (Error (''No image returned from Stable Diffusion after polling. Payload: '' @
                  take 400 (JSON_stringify (polls 5)))))"
proof -
  have "pollLoop cfg net (Some (JStr u)) d0 0 (parseImage (Some d0)) d0 =
     (concat (replicate 6 [Sleep 5000, Fetch (pollRequest cfg purl d0)]) @
        fst (pollLoop cfg net (Some (JStr u)) d0 (0 + 6)
               (if (6::nat) = 0 then parseImage (Some d0) else parseImage (Some (polls (0 + 6 - 1))))
               (if (6::nat) = 0 then d0 else polls (0 + 6 - 1))),
      snd (pollLoop cfg net (Some (JStr u)) d0 (0 + 6)
               (if (6::nat) = 0 then parseImage (Some d0) else parseImage (Some (polls (0 + 6 - 1))))
               (if (6::nat) = 0 then d0 else polls (0 + 6 - 1))))"
    using polls image0 by (intro pollLoop_processing [OF url, where raws = raws]) auto
  then have loop: "pollLoop cfg net (Some (JStr u)) d0 0 (parseImage (Some d0)) d0 =
     (concat (replicate 6 [Sleep 5000, Fetch (pollRequest cfg purl d0)]),
      Inr (parseImage (Some (polls 5)), polls 5))"
    by (simp add: pollLoop_exit maxAttempts_def)
  have final: "\<not> truthy (parseImage (Some (polls 5)))"
    using polls by simp
  have notnull: "d0 \<noteq> JNull"
    using status0 by auto
  have noerr: "\<not> isInitialError (Some d0)"
    using status0 error0 by (simp add: isInitialError_def)
  show ?thesis
    using init status0 fetch0 image0 notnull noerr final
    by (simp add: requestAndPoll_def response_json_def loop)
qed

text \<open>The theorem of C2 on the example configuration, with every poll answered by
  \<^verbatim>\<open>{"status":"processing"}\<close>.\<close>

theorem polling_exhausts_after_six_witness:
  \<open>requestAndPoll example_config
     (\<lambda>n req. Inr (jsonResponse (if n = 0 then processingInitial else processingPoll)))
     ''https://e'' (JObj []) =
   (Fetch (initialRequest example_config ''https://e'' (JObj [])) #
      concat (replicate 6
        [Sleep 5000, Fetch (pollRequest example_config ''https://p/poll?key=abc123'' processingInitial)]),
    Inl (Error ''No image returned from Stable Diffusion after polling. Payload: {"status":"processing"}''))\<close>
proof -
  have "take 400 (JSON_stringify processingPoll) = ''{\"status\":\"processing\"}''"
    by (simp add: processingPoll_def quoteJSONString_def quoteChar_def)
  then show ?thesis
    using polling_exhausts_after_six [of
        "\<lambda>n req. Inr (jsonResponse (if n = 0 then processingInitial else processingPoll))"
        example_config "''https://e''" "JObj []" "JSON_stringify processingInitial" processingInitial
        "''https://p/poll''" "''https://p/poll?key=abc123''"
        "\<lambda>k. JSON_stringify processingPoll" "\<lambda>k. processingPoll"]
    by (simp add: jsonResponse_def example_pollUrl processingInitial_facts processingPoll_facts)
qed

text \<open>Claim C3. Let the initial response be as in C2, let the polls before attempt \<open>k\<close>
  (counted from 0, \<open>k < 6\<close>) say "processing" with no image, and let the poll of attempt
  \<open>k\<close> be a JSON body whose status is not "processing", with no extractable image, no
  error status and no error field. Then the loop stops there: the call has made
  \<open>k + 1\<close> poll requests and no more, and fails with the error "No image returned from
  Stable Diffusion after polling", which carries the first 400 characters of that
  body.\<close>

theorem polling_stops_early:
  assumes init: "net 0 (initialRequest cfg endpoint payload) = Inr \<lparr>ok = True, content = Body raw0 (Some d0)\<rparr>"
    and status0: "getProp ''status'' (Some d0) = Some (JStr ''processing'')"
    and fetch0: "getProp ''fetch_result'' (Some d0) = Some (JStr u)" "u \<noteq> []"
    and image0: "\<not> truthy (parseImage (Some d0))"
    and error0: "\<not> truthy (getProp ''error'' (Some d0))"
    and url: "urlWithKey cfg (Some (JStr u)) = Inr purl"
    and before: "\<forall>j<k.
       net (Suc j) (pollRequest cfg purl d0) = Inr \<lparr>ok = True, content = Body (raws j) (Some (polls j))\<rparr> \<and>
       getProp ''status'' (Some (polls j)) = Some (JStr ''processing'') \<and>
       \<not> truthy (parseImage (Some (polls j))) \<and>
       \<not> truthy (getProp ''error'' (Some (polls j)))"
    and k: "k < 6"
    and stop: "net (Suc k) (pollRequest cfg purl d0) = Inr \<lparr>ok = True, content = Body raw (Some d)\<rparr>"
      "getProp ''status'' (Some d) \<noteq> Some (JStr ''processing'')"
      "\<not> truthy (parseImage (Some d))"
      "getProp ''status'' (Some d) \<noteq> Some (JStr ''error'')"
      "\<not> truthy (getProp ''error'' (Some d))"
  shows "requestAndPoll cfg net endpoint payload =
     (Fetch (initialRequest cfg endpoint payload) #
        concat (replicate (Suc k) [Sleep 5000, Fetch (pollRequest cfg purl d0)]),
      Inl (Error (''No image returned from Stable Diffusion after polling. Payload: '' @
                  take 400 (JSON_stringify d))))"
proof -
  let ?E = "[Sleep 5000, Fetch (pollRequest cfg purl d0)]"
  let ?img = "if k = 0 then parseImage (Some d0) else parseImage (Some (polls (0 + k - 1)))"
  let ?ld = "if k = 0 then d0 else polls (0 + k - 1)"
  have run: "pollLoop cfg net (Some (JStr u)) d0 0 (parseImage (Some d0)) d0 =
     (concat (replicate k ?E) @ fst (pollLoop cfg net (Some (JStr u)) d0 (0 + k) ?img ?ld),
      snd (pollLoop cfg net (Some (JStr u)) d0 (0 + k) ?img ?ld))"
    using before image0 k by (intro pollLoop_processing [OF url, where raws = raws]) auto
  have falsy: "\<not> truthy ?img"
    using before image0 by (cases k) auto
  have att: "pollAttempt cfg net (Some (JStr u)) d0 k = (?E, Inr d)"
    using url stop by (intro pollAttempt_json) (auto simp: isPollError_def)
  have "pollLoop cfg net (Some (JStr u)) d0 (0 + k) ?img ?ld = (?E, Inr (parseImage (Some d), d))"
    using k falsy stop(2,3) by (simp add: pollLoop_step [where img = ?img] att maxAttempts_def)
  with run have loop: "pollLoop cfg net (Some (JStr u)) d0 0 (parseImage (Some d0)) d0 =
     (concat (replicate (Suc k) ?E), Inr (parseImage (Some d), d))"
    by (simp add: concat_replicate_snoc del: replicate.simps)
  have notnull: "d0 \<noteq> JNull"
    using status0 by auto
  have noerr: "\<not> isInitialError (Some d0)"
    using status0 error0 by (simp add: isInitialError_def)
  show ?thesis
    using init status0 fetch0 image0 notnull noerr stop(3)
    by (simp add: requestAndPoll_def response_json_def loop del: replicate.simps)
qed

text \<open>The theorem of C3 with the second poll answered by \<^verbatim>\<open>{"status":"success"}\<close>: two
  poll requests, then the error.\<close>

theorem polling_stops_early_witness:
  \<open>requestAndPoll example_config
     (\<lambda>n req. Inr (jsonResponse (if n = 0 then processingInitial
                                  else if n = 1 then processingPoll else finishedPoll)))
     ''https://e'' (JObj []) =
   (Fetch (initialRequest example_config ''https://e'' (JObj [])) #
      concat (replicate (Suc 1)
        [Sleep 5000, Fetch (pollRequest example_config ''https://p/poll?key=abc123'' processingInitial)]),
    Inl (Error ''No image returned from Stable Diffusion after polling. Payload: {"status":"success"}''))\<close>
proof -
  have "take 400 (JSON_stringify finishedPoll) = ''{\"status\":\"success\"}''"
    by (simp add: finishedPoll_def quoteJSONString_def quoteChar_def)
  then show ?thesis
    using polling_stops_early [of
        "\<lambda>n req. Inr (jsonResponse (if n = 0 then processingInitial
                                  else if n = 1 then processingPoll else finishedPoll))"
        example_config "''https://e''" "JObj []" "JSON_stringify processingInitial" processingInitial
        "''https://p/poll''" "''https://p/poll?key=abc123''" 1
        "\<lambda>k. JSON_stringify processingPoll" "\<lambda>k. processingPoll"
        "JSON_stringify finishedPoll" finishedPoll]
    by (simp add: jsonResponse_def example_pollUrl processingInitial_facts processingPoll_facts
        finishedPoll_facts del: replicate.simps replicate_Suc)
qed

subsection \<open>Where a result comes from\<close>

text \<open>A pass of the loop that hands a body on has fetched it: an ok response whose body
  parsed to it.\<close>

lemma pollAttempt_Inr:
  "pollAttempt cfg net f d0 a = (evs, Inr d) \<Longrightarrow>
   \<exists>req r raw. Fetch req \<in> set evs \<and> net (Suc a) req = Inr r \<and> ok r \<and> content r = Body raw (Some d)"
  by (auto simp: pollAttempt_def Let_def response_json_def response_text_def
      split: sum.splits if_splits body.splits option.splits)

text \<open>An image with which the loop is left, when it was entered with none, was extracted
  from the body of one of the polls made.\<close>

lemma pollLoop_image:
  "pollLoop cfg net f d0 a img ld = (evs, Inr (img', ld')) \<Longrightarrow> \<not> truthy img \<Longrightarrow> truthy img' \<Longrightarrow>
   \<exists>n req r raw d. a < n \<and> n \<le> 6 \<and> Fetch req \<in> set evs \<and> net n req = Inr r \<and> ok r \<and>
     content r = Body raw (Some d) \<and> img' = parseImage (Some d)"
proof (induction cfg net f d0 a img ld arbitrary: evs img' ld' rule: pollLoop.induct)
  case (1 cfg net fetchUrl initialData attempt img lastData)
  show ?case
  proof (cases "attempt < maxAttempts")
    case False
    with "1.prems" show ?thesis by (simp add: pollLoop_exit)
  next
    case True
    obtain evs1 r1 where att: "pollAttempt cfg net fetchUrl initialData attempt = (evs1, r1)"
      by (cases "pollAttempt cfg net fetchUrl initialData attempt")
    show ?thesis
    proof (cases r1)
      case (Inl e)
      with "1.prems" True att show ?thesis by (simp add: pollLoop_step)
    next
      case (Inr d)
      from att Inr obtain req r raw where got: "Fetch req \<in> set evs1" "net (Suc attempt) req = Inr r"
        "ok r" "content r = Body raw (Some d)"
        using pollAttempt_Inr by blast
      show ?thesis
      proof (cases "truthy (parseImage (Some d))")
        case True
        then have found: "truthy (parseImage (Some d))" .
        then have "pollLoop cfg net fetchUrl initialData (Suc attempt) (parseImage (Some d)) d =
            ([], Inr (parseImage (Some d), d))"
          by (simp add: pollLoop_exit)
        with found \<open>attempt < maxAttempts\<close> att Inr "1.prems"
        have "evs = evs1" "img' = parseImage (Some d)"
          by (auto simp: pollLoop_step Let_def)
        with got \<open>attempt < maxAttempts\<close> show ?thesis
          by (auto simp: maxAttempts_def intro!: exI [of _ "Suc attempt"])
      next
        case False
        then have noimg: "\<not> truthy (parseImage (Some d))" .
        show ?thesis
        proof (cases "getProp ''status'' (Some d) \<noteq> Some (JStr ''processing'')")
          case True
          with noimg \<open>attempt < maxAttempts\<close> att Inr "1.prems" show ?thesis
            by (auto simp: pollLoop_step Let_def)
        next
          case False
          obtain evs2 r2 where rec: "pollLoop cfg net fetchUrl initialData (Suc attempt)
              (parseImage (Some d)) d = (evs2, r2)"
            by (cases "pollLoop cfg net fetchUrl initialData (Suc attempt) (parseImage (Some d)) d")
          with noimg False \<open>attempt < maxAttempts\<close> att Inr "1.prems"
          have eq: "evs = evs1 @ evs2" "r2 = Inr (img', ld')"
            by (auto simp: pollLoop_step Let_def)
          have "\<exists>n req r raw d'. Suc attempt < n \<and> n \<le> 6 \<and> Fetch req \<in> set evs2 \<and>
              net n req = Inr r \<and> ok r \<and> content r = Body raw (Some d') \<and> img' = parseImage (Some d')"
            using "1.IH" [OF _ att [symmetric] Inr refl _ _ noimg "1.prems"(3)]
              \<open>attempt < maxAttempts\<close> "1.prems"(2) False noimg rec eq
            by simp
          then show ?thesis
            using eq by (metis Suc_lessD Un_iff set_append)
        qed
      qed
    qed
  qed
qed

lemma requestAndPoll_Inr:
  assumes "requestAndPoll cfg net endpoint payload = (tr, Inr s)"
  shows "\<exists>n req r raw d. n \<le> 6 \<and> Fetch req \<in> set tr \<and> net n req = Inr r \<and> ok r \<and>
     content r = Body raw (Some d) \<and> truthy (parseImage (Some d)) \<and>
     normalizeResult (parseImage (Some d)) = Inr s"
proof -
  let ?req = "initialRequest cfg endpoint payload"
  from assms obtain r0 where r0: "net 0 ?req = Inr r0"
    by (cases "net 0 ?req") (auto simp: requestAndPoll_def Let_def)
  with assms have ok0: "ok r0"
    by (auto simp: requestAndPoll_def Let_def split: sum.splits if_splits)
  with assms r0 obtain d0 where d0: "response_json r0 False = Inr d0"
    by (cases "response_json r0 False") (auto simp: requestAndPoll_def Let_def)
  then obtain raw0 where body0: "content r0 = Body raw0 (Some d0)"
    by (auto simp: response_json_def split: body.splits option.splits)
  have head: "Fetch ?req \<in> set tr"
    using assms r0 ok0 d0
    by (auto simp: requestAndPoll_def Let_def split: if_splits prod.splits sum.splits)
  show ?thesis
  proof (cases "truthy (parseImage (Some d0))")
    case True
    with assms r0 ok0 d0 have "normalizeResult (parseImage (Some d0)) = Inr s"
      by (auto simp: requestAndPoll_def Let_def split: if_splits)
    with True r0 ok0 body0 head show ?thesis
      by (intro exI [of _ 0] exI [of _ ?req] exI [of _ r0] exI [of _ raw0] exI [of _ d0]) simp
  next
    case False
    let ?loop = "pollLoop cfg net (getProp ''fetch_result'' (Some d0)) d0 0 (parseImage (Some d0)) d0"
    obtain evs res where loop: "?loop = (evs, res)"
      by (cases ?loop)
    with False assms r0 ok0 d0 obtain img' ld' where res: "res = Inr (img', ld')"
      and fin: "truthy img'" "normalizeResult img' = Inr s" "tr = Fetch ?req # evs"
      by (cases res) (auto simp: requestAndPoll_def Let_def split: if_splits)
    from pollLoop_image [OF loop [unfolded res] False fin(1)]
    obtain n req r raw d where "0 < n" "n \<le> 6" "Fetch req \<in> set evs" "net n req = Inr r" "ok r"
      "content r = Body raw (Some d)" "img' = parseImage (Some d)"
      by blast
    with fin show ?thesis
      by (intro exI [of _ n] exI [of _ req] exI [of _ r] exI [of _ raw] exI [of _ d]) simp
  qed
qed

text \<open>Claim C1. Whenever \<^verbatim>\<open>generateQuantumManifestation\<close> returns a result string, one
  of the requests it made (the initial one, number 0, or one of the at most six polls)
  was answered by an ok response whose JSON body gave \<^verbatim>\<open>parseImage\<close> a non-empty image
  reference, and the result is that reference normalized. In every other case the call
  fails: when no body the network can answer with holds an extractable image, the
  outcome is an error. The call always ends with one of the two, the model being a
  total function.\<close>

theorem result_only_from_extracted_image:
  "(generateQuantumManifestation cfg net seed atom entity params baseImage = (tr, Inr s) \<longrightarrow>
      (\<exists>n req r raw d. n \<le> 6 \<and> Fetch req \<in> set tr \<and> net n req = Inr r \<and> ok r \<and>
         content r = Body raw (Some d) \<and> truthy (parseImage (Some d)) \<and>
         normalizeResult (parseImage (Some d)) = Inr s)) \<and>
   ((\<forall>n req r raw d. net n req = Inr r \<and> content r = Body raw (Some d) \<longrightarrow>
         \<not> truthy (parseImage (Some d))) \<longrightarrow>
      (\<exists>e. snd (generateQuantumManifestation cfg net seed atom entity params baseImage) = Inl e))"
proof -
  have first: "\<exists>n req r raw d. n \<le> 6 \<and> Fetch req \<in> set tr \<and> net n req = Inr r \<and> ok r \<and>
         content r = Body raw (Some d) \<and> truthy (parseImage (Some d)) \<and>
         normalizeResult (parseImage (Some d)) = Inr s"
    if "generateQuantumManifestation cfg net seed atom entity params baseImage = (tr, Inr s)"
    for tr s
  proof -
    have "\<exists>endpoint payload.
      generateQuantumManifestation cfg net seed atom entity params baseImage =
        requestAndPoll cfg net endpoint payload"
      unfolding generateQuantumManifestation_def Let_def
      by (simp split: option.splits list.splits) blast
    then obtain endpoint payload where
      "generateQuantumManifestation cfg net seed atom entity params baseImage =
         requestAndPoll cfg net endpoint payload"
      by blast
    with that show ?thesis
      by (intro requestAndPoll_Inr) simp
  qed
  have second: "\<exists>e. snd (generateQuantumManifestation cfg net seed atom entity params baseImage) = Inl e"
    if none: "\<forall>n req r raw d. net n req = Inr r \<and> content r = Body raw (Some d) \<longrightarrow>
         \<not> truthy (parseImage (Some d))"
  proof (cases "snd (generateQuantumManifestation cfg net seed atom entity params baseImage)")
    case (Inl e)
    then show ?thesis by simp
  next
    case (Inr s')
    then have "generateQuantumManifestation cfg net seed atom entity params baseImage =
        (fst (generateQuantumManifestation cfg net seed atom entity params baseImage), Inr s')"
      by (simp add: prod_eq_iff)
    from first [OF this] none show ?thesis by blast
  qed
  from first second show ?thesis by blast
qed

text \<open>The initial body of the examples sends \<^verbatim>\<open>requestAndPoll\<close> into the loop.\<close>

lemma requestAndPoll_polling:
  assumes "net 0 (initialRequest cfg endpoint payload) = Inr (jsonResponse processingInitial)"
  shows "requestAndPoll cfg net endpoint payload =
     (case pollLoop cfg net (Some (JStr ''https://p/poll'')) processingInitial 0
             (parseImage (Some processingInitial)) processingInitial of
        (evs, Inl e) \<Rightarrow> (Fetch (initialRequest cfg endpoint payload) # evs, Inl e)
      | (evs, Inr (img', lastData)) \<Rightarrow>
          if \<not> truthy img' then
            (Fetch (initialRequest cfg endpoint payload) # evs,
             Inl (Error (''No image returned from Stable Diffusion after polling. Payload: '' @
                         take 400 (JSON_stringify lastData))))
          else (Fetch (initialRequest cfg endpoint payload) # evs, normalizeResult img'))"
proof -
  have "processingInitial \<noteq> JNull" "\<not> isInitialError (Some processingInitial)"
    by (simp_all add: processingInitial_def isInitialError_def)
  then show ?thesis
    using assms
    by (simp add: requestAndPoll_def jsonResponse_def response_json_def processingInitial_facts
        Let_def)
qed

text \<open>The theorem of C1 on the specification's end-to-end scenario (the initial response
  and the first poll say "processing", the second poll has the image
  \<^verbatim>\<open>https://cdn/img.png\<close>, which is the result), and on a network that only ever answers
  \<^verbatim>\<open>{"status":"processing"}\<close>, where the call fails.\<close>

theorem result_only_from_extracted_image_witness:
  "(\<exists>(n::nat) req r raw d. n \<le> 6 \<and>
     Fetch req \<in> set (fst (generateQuantumManifestation example_config
       (\<lambda>n req. Inr (jsonResponse (if n = 0 then processingInitial
                                    else if n = 1 then processingPoll else imagePoll)))
       1234567 Carbon ''arctic fox'' \<lparr>wavelength = 1, amplitude = 1\<rparr> None)) \<and>
     (\<lambda>(n::nat) (req::request). Inr (jsonResponse (if n = 0 then processingInitial
                                    else if n = 1 then processingPoll else imagePoll))
        :: error + response) n req = Inr r \<and>
     ok r \<and> content r = Body raw (Some d) \<and> truthy (parseImage (Some d)) \<and>
     normalizeResult (parseImage (Some d)) = Inr ''https://cdn/img.png'') \<and>
   (\<exists>e. snd (generateQuantumManifestation example_config
       (\<lambda>n req. Inr (jsonResponse processingPoll))
       1234567 Carbon ''arctic fox'' \<lparr>wavelength = 1, amplitude = 1\<rparr> None) = Inl e)"
proof
  let ?net = "\<lambda>n req. Inr (jsonResponse (if n = (0::nat) then processingInitial
                                    else if n = 1 then processingPoll else imagePoll))
              :: error + response"
  let ?G = "generateQuantumManifestation example_config ?net
       1234567 Carbon ''arctic fox'' \<lparr>wavelength = 1, amplitude = 1\<rparr> None"
  let ?f = "Some (JStr ''https://p/poll'')"
  have img: "parseImage (Some imagePoll) = Some (JStr ''https://cdn/img.png'')"
    by (simp add: imagePoll_def parseImage_def js_or_def)
  have a0: "pollAttempt example_config ?net ?f processingInitial 0 =
      ([Sleep 5000, Fetch (pollRequest example_config ''https://p/poll?key=abc123'' processingInitial)],
       Inr processingPoll)"
    by (rule pollAttempt_json [OF example_pollUrl])
      (simp_all add: jsonResponse_def isPollError_def processingPoll_facts)
  have a1: "pollAttempt example_config ?net ?f processingInitial (Suc 0) =
      ([Sleep 5000, Fetch (pollRequest example_config ''https://p/poll?key=abc123'' processingInitial)],
       Inr imagePoll)"
    by (rule pollAttempt_json [OF example_pollUrl])
      (simp_all add: jsonResponse_def isPollError_def imagePoll_def)
  have "snd (pollLoop example_config ?net ?f processingInitial 0
      (parseImage (Some processingInitial)) processingInitial) =
      Inr (Some (JStr ''https://cdn/img.png''), imagePoll)"
    by (simp add: pollLoop_step pollLoop_exit a0 a1 maxAttempts_def processingInitial_facts
        processingPoll_facts img Let_def split: prod.splits)
  then have "snd (requestAndPoll example_config ?net endpoint payload) = Inr ''https://cdn/img.png''"
    for endpoint payload
    by (subst requestAndPoll_polling)
      (auto simp: normalizeResult_def isUrl_def ToString_def split: prod.splits)
  then have "snd ?G = Inr ''https://cdn/img.png''"
    by (simp add: generateQuantumManifestation_def Let_def)
  then have run: "?G = (fst ?G, Inr ''https://cdn/img.png'')"
    by (simp add: prod_eq_iff)
  show "\<exists>(n::nat) req r raw d. n \<le> 6 \<and> Fetch req \<in> set (fst ?G) \<and> ?net n req = Inr r \<and>
     ok r \<and> content r = Body raw (Some d) \<and> truthy (parseImage (Some d)) \<and>
     normalizeResult (parseImage (Some d)) = Inr ''https://cdn/img.png''"
    by (rule result_only_from_extracted_image [of example_config ?net 1234567 Carbon "''arctic fox''"
          "\<lparr>wavelength = 1, amplitude = 1\<rparr>" None "fst ?G" "''https://cdn/img.png''",
          THEN conjunct1, THEN mp, OF run])
next
  have "\<forall>(n::nat) (req::request) r raw d.
      (Inr (jsonResponse processingPoll) :: error + response) = Inr r \<and> content r = Body raw (Some d) \<longrightarrow>
      \<not> truthy (parseImage (Some d))"
    by (auto simp: jsonResponse_def processingPoll_facts)
  then show "\<exists>e. snd (generateQuantumManifestation example_config
       (\<lambda>n req. Inr (jsonResponse processingPoll))
       1234567 Carbon ''arctic fox'' \<lparr>wavelength = 1, amplitude = 1\<rparr> None) = Inl e"
    by (rule result_only_from_extracted_image [of example_config
          "\<lambda>n req. Inr (jsonResponse processingPoll)"
          1234567 Carbon "''arctic fox''" "\<lparr>wavelength = 1, amplitude = 1\<rparr>" None,
          THEN conjunct2, THEN mp])
qed

subsection \<open>Errors at the poll stage\<close>

text \<open>What the poll stage does do. A poll body with the status "error" or with a
  non-empty error field ends the call at that attempt with the provider's message (or
  a fixed one when there is none), before any image extraction; a poll body that is not
  JSON ends the call at that attempt too.\<close>

lemma poll_error_fails_immediately:
  assumes "urlWithKey cfg f = Inr purl"
    and "net (Suc a) (pollRequest cfg purl d0) = Inr \<lparr>ok = True, content = Body raw (Some d)\<rparr>"
    and "getProp ''status'' (Some d) = Some (JStr ''error'') \<or> truthy (getProp ''error'' (Some d))"
    and "a < 6" and "\<not> truthy img"
  shows "pollLoop cfg net f d0 a img ld =
     ([Sleep 5000, Fetch (pollRequest cfg purl d0)],
      Inl (newError (ToString (js_or (js_or (getProp ''message'' (Some d)) (getProp ''error'' (Some d)))
                                     (Some (JStr ''Stable Diffusion polling error''))))))"
proof -
  have "pollAttempt cfg net f d0 a =
     ([Sleep 5000, Fetch (pollRequest cfg purl d0)], Inl (pollError (Some d)))"
    using assms(1-3) by (simp add: pollAttempt_def response_json_def delayMs_def isPollError_def)
  then show ?thesis
    using assms(4,5) by (simp add: pollLoop_step maxAttempts_def pollError_def)
qed

lemma poll_parse_failure_fails_immediately:
  assumes "urlWithKey cfg f = Inr purl"
    and "net (Suc a) (pollRequest cfg purl d0) = Inr \<lparr>ok = True, content = b\<rparr>"
    and "b = NoBody \<or> (\<exists>raw. b = Body raw None)"
    and "a < 6" and "\<not> truthy img"
  shows "pollLoop cfg net f d0 a img ld =
     ([Sleep 5000, Fetch (pollRequest cfg purl d0)],
      Inl (case b of NoBody \<Rightarrow> Error ''Stable Diffusion poll parse failed: ''
           | Body raw parsed \<Rightarrow> TypeError))"
proof -
  have "pollAttempt cfg net f d0 a =
     ([Sleep 5000, Fetch (pollRequest cfg purl d0)],
      Inl (case b of NoBody \<Rightarrow> Error ''Stable Diffusion poll parse failed: ''
           | Body raw parsed \<Rightarrow> TypeError))"
    using assms(1-3)
    by (auto simp: pollAttempt_def response_json_def response_text_def delayMs_def)
  then show ?thesis
    using assms(4,5) by (simp add: pollLoop_step maxAttempts_def)
qed

text \<open>Claim C7 does not hold of the code: the check on a poll body (line 115) tests the
  status "error" and the error field, and leaves out the status "failed", which the
  check on the initial body (line 72) does test. With the initial response
  \<^verbatim>\<open>{"status":"processing","fetch_result":"https://p/poll","id":"r1"}\<close> and the poll
  response \<^verbatim>\<open>{"status":"failed","message":"GPU out of memory"}\<close>, the call goes on to
  image extraction and ends with the no-image error and a dump of the body, not with
  the provider's message; the same body as an initial response does fail with the
  provider's message.\<close>

theorem poll_failed_status_not_provider_error:
  \<open>snd (requestAndPoll example_config
          (\<lambda>n req. Inr (jsonResponse (if n = 0 then processingInitial else failedPoll)))
          endpoint payload) =
     Inl (Error ''No image returned from Stable Diffusion after polling. Payload: {"status":"failed","message":"GPU out of memory"}'') \<and>
   snd (requestAndPoll example_config (\<lambda>n req. Inr (jsonResponse failedPoll)) endpoint payload) =
     Inl (Error ''GPU out of memory'')\<close>
proof -
  let ?net = "\<lambda>n req. Inr (jsonResponse (if n = (0::nat) then processingInitial else failedPoll))
              :: error + response"
  let ?f = "Some (JStr ''https://p/poll'')"
  have facts: "getProp ''status'' (Some failedPoll) = Some (JStr ''failed'')"
    "parseImage (Some failedPoll) = None" "\<not> isPollError (Some failedPoll)"
    "isInitialError (Some failedPoll)" "failedPoll \<noteq> JNull"
    "initialError (Some failedPoll) = Error ''GPU out of memory''"
    by (simp_all add: failedPoll_def parseImage_def js_or_def isPollError_def isInitialError_def
        initialError_def newError_def ToString_def)
  have str: "take 400 (JSON_stringify failedPoll) =
      ''{\"status\":\"failed\",\"message\":\"GPU out of memory\"}''"
    by (simp add: failedPoll_def quoteJSONString_def quoteChar_def)
  have a0: "pollAttempt example_config ?net ?f processingInitial 0 =
      ([Sleep 5000, Fetch (pollRequest example_config ''https://p/poll?key=abc123'' processingInitial)],
       Inr failedPoll)"
    by (rule pollAttempt_json [OF example_pollUrl]) (simp_all add: jsonResponse_def facts)
  have "snd (pollLoop example_config ?net ?f processingInitial 0
      (parseImage (Some processingInitial)) processingInitial) = Inr (None, failedPoll)"
    by (simp add: pollLoop_step a0 maxAttempts_def processingInitial_facts facts)
  then have "snd (requestAndPoll example_config ?net endpoint payload) =
     Inl (Error (''No image returned from Stable Diffusion after polling. Payload: '' @
                 take 400 (JSON_stringify failedPoll)))"
    by (subst requestAndPoll_polling) (auto split: prod.splits)
  moreover have "snd (requestAndPoll example_config (\<lambda>n req. Inr (jsonResponse failedPoll))
      endpoint payload) = Inl (Error ''GPU out of memory'')"
    by (simp add: requestAndPoll_def jsonResponse_def response_json_def facts)
  ultimately show ?thesis
    by (simp add: str)
qed

text \<open>Claim C8 does not hold of the code: the handler of the failed \<^verbatim>\<open>pollRes.json()\<close>
  (line 112) reads the body a second time with \<^verbatim>\<open>pollRes.text()\<close>, and a body that
  \<^verbatim>\<open>json()\<close> has consumed cannot be read again: \<^verbatim>\<open>text()\<close> rejects with a \<^verbatim>\<open>TypeError\<close>,
  which is what the call fails with. With a poll response of status 200 and the body
  \<^verbatim>\<open><html>502 Bad Gateway</html>\<close> the error is that \<^verbatim>\<open>TypeError\<close>, not the message
  "Stable Diffusion poll parse failed: " followed by the raw text.\<close>

theorem poll_parse_failure_loses_raw_text:
  "snd (requestAndPoll example_config
          (\<lambda>n req. Inr (if n = 0 then jsonResponse processingInitial else htmlResponse))
          endpoint payload) = Inl TypeError \<and>
   snd (requestAndPoll example_config
          (\<lambda>n req. Inr (if n = 0 then jsonResponse processingInitial else htmlResponse))
          endpoint payload) \<noteq>
     Inl (Error ''Stable Diffusion poll parse failed: <html>502 Bad Gateway</html>'')"
proof -
  let ?net = "\<lambda>n req. Inr (if n = (0::nat) then jsonResponse processingInitial else htmlResponse)
              :: error + response"
  let ?f = "Some (JStr ''https://p/poll'')"
  have a0: "pollAttempt example_config ?net ?f processingInitial 0 =
      ([Sleep 5000, Fetch (pollRequest example_config ''https://p/poll?key=abc123'' processingInitial)],
       Inl TypeError)"
    by (simp add: pollAttempt_def example_pollUrl htmlResponse_def response_json_def
        response_text_def delayMs_def)
  have "snd (pollLoop example_config ?net ?f processingInitial 0
      (parseImage (Some processingInitial)) processingInitial) = Inl TypeError"
    by (simp add: pollLoop_step a0 maxAttempts_def processingInitial_facts)
  then have "snd (requestAndPoll example_config ?net endpoint payload) = Inl TypeError"
    by (subst requestAndPoll_polling) (auto split: prod.splits)
  then show ?thesis
    by simp
qed

end
